theory Spec2Isabelle
  imports Main
begin

section \<open>Strings\<close>

text \<open>
  JavaScript strings are modelled as \<open>string\<close>; a character outside ASCII stands as its
  UTF-8 bytes. The converter only concatenates strings and cuts them at the newline
  character, and both commute with the encoding.
\<close>

definition newline :: char where
  "newline = CHR 0x0A"

text \<open>\<^verbatim>\<open>s.includes(c)\<close> for a one-character needle.\<close>

definition str_includes :: "string \<Rightarrow> char \<Rightarrow> bool" where
  "str_includes s c = (c \<in> set s)"

text \<open>\<^verbatim>\<open>s.split(sep)\<close> for a one-character separator: never the empty array.\<close>

fun str_split :: "char \<Rightarrow> string \<Rightarrow> string list" where
  "str_split sep [] = [[]]"
| "str_split sep (c # cs) =
     (if c = sep then [] # str_split sep cs
      else (c # hd (str_split sep cs)) # tl (str_split sep cs))"

text \<open>\<^verbatim>\<open>xs.join(sep)\<close> on an array of strings.\<close>

fun join :: "string \<Rightarrow> string list \<Rightarrow> string" where
  "join sep [] = []"
| "join sep [x] = x"
| "join sep (x # y # ys) = x @ sep @ join sep (y # ys)"

text \<open>\<^verbatim>\<open>'  '.repeat(n)\<close>.\<close>

definition repeat :: "string \<Rightarrow> nat \<Rightarrow> string" where
  "repeat s n = concat (replicate n s)"

text \<open>The decimal text of an array length, as a template literal renders it.\<close>

definition digit :: "nat \<Rightarrow> char" where
  "digit n = ''0123456789'' ! n"

fun string_of_nat :: "nat \<Rightarrow> string" where
  "string_of_nat n =
     (if n < 10 then [digit n] else string_of_nat (n div 10) @ [digit (n mod 10)])"

declare string_of_nat.simps [simp del]

text \<open>
  \<^verbatim>\<open>a || b\<close> where \<open>a\<close> is a string that may be missing: the empty string and
  \<^verbatim>\<open>undefined\<close> are both falsy.
\<close>

definition str_or :: "string option \<Rightarrow> string \<Rightarrow> string" where
  "str_or a b = (case a of None \<Rightarrow> b | Some s \<Rightarrow> if s = [] then b else s)"

text \<open>Truthiness of a boolean field that may be missing.\<close>

definition truthy :: "bool option \<Rightarrow> bool" where
  "truthy a = (a = Some True)"

section \<open>Value escaping (toon-converter.js, escapeValue)\<close>

definition escapeValue :: "string \<Rightarrow> string" where
  "escapeValue v =
     (if v = [] then []
      else if str_includes v newline then hd (str_split newline v) @ ''...''
      else v)"

section \<open>Rich text (notion-api.js, richTextToPlain)\<close>

record rich_text_item =
  plain_text :: "string option"

text \<open>The argument is \<open>None\<close> when the field holding the run list is missing.\<close>

definition richTextToPlain :: "rich_text_item list option \<Rightarrow> string" where
  "richTextToPlain richTextArray =
     (case richTextArray of
        None \<Rightarrow> []
      | Some arr \<Rightarrow> join [] (map (\<lambda>rt. str_or (plain_text rt) []) arr))"

section \<open>Blocks\<close>

datatype link = Link (link_url: "string option")

datatype icon = Icon (emoji: "string option")

text \<open>
  The object a block carries under the key of its kind (\<^verbatim>\<open>block.paragraph\<close>,
  \<^verbatim>\<open>block.to_do\<close>, \<^verbatim>\<open>block.table_row\<close>, ...). Every field the converter reads
  with \<^verbatim>\<open>?.\<close> or \<^verbatim>\<open>||\<close> may be missing.
\<close>

record payload =
  rich_text :: "rich_text_item list option"
  checked :: "bool option"
  language :: "string option"
  icon :: "icon option"
  file_link :: "link option"
  external_link :: "link option"
  caption :: "rich_text_item list option"
  name :: "string option"
  url :: "string option"
  expression :: "string option"
  title :: "string option"
  page_id :: "string option"
  database_id :: "string option"
  has_column_header :: "bool option"
  cells :: "rich_text_item list list option"

text \<open>
  A block: \<^verbatim>\<open>block.type\<close>, the objects under its other keys (\<open>field b k\<close> is
  \<^verbatim>\<open>block[k]\<close>), and \<^verbatim>\<open>block.children\<close>, which is missing on a block fetched
  without children.
\<close>

datatype block =
  Block (btype: string) (field: "string \<Rightarrow> payload option") (children: "block list option")

definition indentOf :: "nat \<Rightarrow> string" where
  "indentOf indent = repeat ''  '' indent"

text \<open>The default callout icon, U+1F4A1, in UTF-8.\<close>

definition bulb :: string where
  "bulb = [CHR 0xF0, CHR 0x9F, CHR 0x92, CHR 0xA1]"

definition isListItem :: "block \<Rightarrow> bool" where
  "isListItem block =
     (btype block \<in> set [''bulleted_list_item'', ''numbered_list_item'', ''to_do''])"

text \<open>
  collectListItems(blocks, startIndex): the model takes the suffix of \<open>blocks\<close> from
  \<open>startIndex\<close> on, which the caller guarantees is not empty.
\<close>

fun collectFrom :: "string \<Rightarrow> block list \<Rightarrow> block list" where
  "collectFrom startType [] = []"
| "collectFrom startType (b # bs) =
     (if btype b \<noteq> startType then [] else b # collectFrom startType bs)"

definition collectListItems :: "block list \<Rightarrow> block list" where
  "collectListItems blocks =
     (case blocks of [] \<Rightarrow> [] | b # _ \<Rightarrow> collectFrom (btype b) blocks)"

text \<open>\<^verbatim>\<open>row.table_row?.cells?.map(cell => richTextToPlain(cell)) || []\<close>\<close>

definition rowCells :: "block \<Rightarrow> string list" where
  "rowCells row =
     (case Option.bind (field row ''table_row'') cells of
        None \<Rightarrow> []
      | Some cs \<Rightarrow> map (\<lambda>cell. richTextToPlain (Some cell)) cs)"

definition formatTable :: "block \<Rightarrow> string \<Rightarrow> string list" where
  "formatTable block indentStr =
     (case children block of
        None \<Rightarrow> [indentStr @ ''table[0]:'']
      | Some rows \<Rightarrow>
          if length rows = 0 then [indentStr @ ''table[0]:'']
          else
            (let hasHeader = truthy (Option.bind (field block ''table'') has_column_header);
                 headers = (if hasHeader \<and> length rows > 0 then rowCells (hd rows) else []);
                 dataRows = (if hasHeader \<and> length rows > 0 then drop 1 rows else rows)
             in (if length headers > 0
                 then indentStr @ ''table['' @ string_of_nat (length dataRows) @ '']{''
                        @ join '','' (map escapeValue headers) @ ''}:''
                 else indentStr @ ''table['' @ string_of_nat (length dataRows) @ '']:'')
                # map (\<lambda>row. indentStr @ ''  '' @ join '','' (map escapeValue (rowCells row)))
                    dataRows))"

section \<open>Block dispatch and list grouping (toon-converter.js)\<close>

text \<open>
  convertBlocks, convertBlock and formatListItems call each other. The \<^verbatim>\<open>while\<close>
  loop of convertBlocks over the index \<open>i\<close> is a recursion over the blocks from \<open>i\<close>
  on; a run of list items moves \<open>i\<close> past the whole run.
\<close>

text \<open>The recursion descends into children and drops at least one block of a run.\<close>

lemma children_size: "children b = Some cs \<Longrightarrow> size_list size cs < size b"
  by (cases b) auto

lemma member_size: "x \<in> set xs \<Longrightarrow> size x < size_list size xs"
  by (induction xs) auto

lemma size_collectFrom: "size_list size (collectFrom t bs) \<le> size_list size bs"
  by (induction bs) auto

lemma size_drop: "size_list size (drop n bs) \<le> size_list size bs"
  by (induction bs arbitrary: n) (auto simp: drop_Cons split: nat.splits intro: le_SucI trans_le_add2)

lemma size_drop_collect:
  "size_list size (drop (length (collectFrom t rest)) rest) < Suc (size b + size_list size rest)"
  using size_drop [of "length (collectFrom t rest)" rest] by simp

lemma size_collect_cases:
  "size_list size (collectFrom t rest) < size_list size rest \<or>
   size_list size (collectFrom t rest) = size_list size rest"
  using size_collectFrom [of t rest] by auto

lemma column_size:
  "children b = Some cols \<Longrightarrow> col \<in> set cols \<Longrightarrow> children col = Some cs \<Longrightarrow>
   size_list size cs < size b"
  using children_size [of b cols] children_size [of col cs] member_size [of col cols] by simp

lemma member_size_cases:
  "x \<in> set xs \<Longrightarrow> size x < size_list size xs \<or> size x = size_list size xs"
  using member_size [of x xs] by simp

function convertBlocks :: "block list \<Rightarrow> nat \<Rightarrow> string list"
  and convertBlock :: "block \<Rightarrow> nat \<Rightarrow> string list"
  and formatListItems :: "block list \<Rightarrow> string \<Rightarrow> string list"
where
  "convertBlocks [] indent = []"
| "convertBlocks (block # rest) indent =
     (if isListItem block then
        (let listItems = collectListItems (block # rest)
         in formatListItems listItems (indentOf indent)
            @ convertBlocks (drop (length listItems) (block # rest)) indent)
      else if btype block = ''table'' then
        formatTable block (indentOf indent) @ convertBlocks rest indent
      else convertBlock block indent @ convertBlocks rest indent)"
| "convertBlock block indent =
     (let indentStr = indentOf indent; type = btype block in
      if type = ''paragraph'' then
        (let text = richTextToPlain (Option.bind (field block ''paragraph'') rich_text)
         in (if text \<noteq> [] then [indentStr @ ''p: '' @ escapeValue text] else []))
      else if type = ''heading_1'' then
        (let text = richTextToPlain (Option.bind (field block ''heading_1'') rich_text)
         in (if text \<noteq> [] then [indentStr @ ''h1: '' @ escapeValue text] else [])
            @ (case children block of None \<Rightarrow> []
               | Some cs \<Rightarrow> convertBlocks cs (indent + 1)))
      else if type = ''heading_2'' then
        (let text = richTextToPlain (Option.bind (field block ''heading_2'') rich_text)
         in (if text \<noteq> [] then [indentStr @ ''h2: '' @ escapeValue text] else [])
            @ (case children block of None \<Rightarrow> []
               | Some cs \<Rightarrow> convertBlocks cs (indent + 1)))
      else if type = ''heading_3'' then
        (let text = richTextToPlain (Option.bind (field block ''heading_3'') rich_text)
         in (if text \<noteq> [] then [indentStr @ ''h3: '' @ escapeValue text] else [])
            @ (case children block of None \<Rightarrow> []
               | Some cs \<Rightarrow> convertBlocks cs (indent + 1)))
      else if type = ''bulleted_list_item'' then
        (let text = richTextToPlain (Option.bind (field block ''bulleted_list_item'') rich_text)
         in (if text \<noteq> [] then [indentStr @ ''- '' @ escapeValue text] else [])
            @ (case children block of None \<Rightarrow> []
               | Some cs \<Rightarrow> convertBlocks cs (indent + 1)))
      else if type = ''numbered_list_item'' then
        (let text = richTextToPlain (Option.bind (field block ''numbered_list_item'') rich_text)
         in (if text \<noteq> [] then [indentStr @ ''# '' @ escapeValue text] else [])
            @ (case children block of None \<Rightarrow> []
               | Some cs \<Rightarrow> convertBlocks cs (indent + 1)))
      else if type = ''to_do'' then
        (let text = richTextToPlain (Option.bind (field block ''to_do'') rich_text);
             checked = (if truthy (Option.bind (field block ''to_do'') checked)
                        then ''[x]'' else ''[ ]'')
         in (if text \<noteq> [] then [indentStr @ checked @ '' '' @ escapeValue text] else [])
            @ (case children block of None \<Rightarrow> []
               | Some cs \<Rightarrow> convertBlocks cs (indent + 1)))
      else if type = ''toggle'' then
        (let text = richTextToPlain (Option.bind (field block ''toggle'') rich_text)
         in (if text \<noteq> [] then [indentStr @ ''toggle: '' @ escapeValue text] else [])
            @ (case children block of None \<Rightarrow> []
               | Some cs \<Rightarrow> convertBlocks cs (indent + 1)))
      else if type = ''code'' then
        (let text = richTextToPlain (Option.bind (field block ''code'') rich_text);
             lang = str_or (Option.bind (field block ''code'') language) ''plain''
         in (if text \<noteq> []
             then (indentStr @ ''code['' @ lang @ '']:'')
                  # map (\<lambda>codeLine. indentStr @ ''  '' @ codeLine) (str_split newline text)
             else []))
      else if type = ''quote'' then
        (let text = richTextToPlain (Option.bind (field block ''quote'') rich_text)
         in (if text \<noteq> [] then [indentStr @ ''quote: '' @ escapeValue text] else [])
            @ (case children block of None \<Rightarrow> []
               | Some cs \<Rightarrow> convertBlocks cs (indent + 1)))
      else if type = ''callout'' then
        (let text = richTextToPlain (Option.bind (field block ''callout'') rich_text);
             icon = str_or (Option.bind (Option.bind (field block ''callout'') icon) emoji) bulb
         in (if text \<noteq> []
             then [indentStr @ ''callout['' @ icon @ '']: '' @ escapeValue text] else [])
            @ (case children block of None \<Rightarrow> []
               | Some cs \<Rightarrow> convertBlocks cs (indent + 1)))
      else if type = ''divider'' then [indentStr @ ''---'']
      else if type = ''image'' then
        (let url = str_or (Option.bind (Option.bind (field block ''image'') file_link) link_url)
                     (str_or (Option.bind (Option.bind (field block ''image'') external_link) link_url) []);
             caption = richTextToPlain (Option.bind (field block ''image'') caption)
         in (if caption \<noteq> [] then [indentStr @ ''image: '' @ escapeValue caption]
             else [indentStr @ ''image: '' @ url]))
      else if type = ''video'' then
        (let url = str_or (Option.bind (Option.bind (field block ''video'') file_link) link_url)
                     (str_or (Option.bind (Option.bind (field block ''video'') external_link) link_url) [])
         in [indentStr @ ''video: '' @ url])
      else if type = ''file'' then
        (let url = str_or (Option.bind (Option.bind (field block ''file'') file_link) link_url)
                     (str_or (Option.bind (Option.bind (field block ''file'') external_link) link_url) []);
             name = str_or (Option.bind (field block ''file'') name) ''file''
         in [indentStr @ ''file['' @ name @ '']: '' @ url])
      else if type = ''pdf'' then
        (let url = str_or (Option.bind (Option.bind (field block ''pdf'') file_link) link_url)
                     (str_or (Option.bind (Option.bind (field block ''pdf'') external_link) link_url) [])
         in [indentStr @ ''pdf: '' @ url])
      else if type = ''bookmark'' then
        (let url = str_or (Option.bind (field block ''bookmark'') url) [];
             caption = richTextToPlain (Option.bind (field block ''bookmark'') caption)
         in (if caption \<noteq> []
             then [indentStr @ ''bookmark: '' @ escapeValue caption @ '' ('' @ url @ '')'']
             else [indentStr @ ''bookmark: '' @ url]))
      else if type = ''link_preview'' then
        (let url = str_or (Option.bind (field block ''link_preview'') url) []
         in [indentStr @ ''link: '' @ url])
      else if type = ''embed'' then
        (let url = str_or (Option.bind (field block ''embed'') url) []
         in [indentStr @ ''embed: '' @ url])
      else if type = ''equation'' then
        (let expr = str_or (Option.bind (field block ''equation'') expression) []
         in [indentStr @ ''math: '' @ escapeValue expr])
      else if type = ''table_of_contents'' then [indentStr @ ''toc:'']
      else if type = ''breadcrumb'' then [indentStr @ ''breadcrumb:'']
      else if type = ''column_list'' then
        (case children block of None \<Rightarrow> []
         | Some cols \<Rightarrow>
             (indentStr @ ''columns:'')
             # concat (map (\<lambda>col. case children col of None \<Rightarrow> []
                                  | Some cs \<Rightarrow> convertBlocks cs (indent + 1)) cols))
      else if type = ''synced_block'' then
        (case children block of None \<Rightarrow> []
         | Some cs \<Rightarrow> convertBlocks cs indent)
      else if type = ''child_page'' then
        (let title = str_or (Option.bind (field block ''child_page'') title) ''Untitled''
         in [indentStr @ ''page: '' @ escapeValue title])
      else if type = ''child_database'' then
        (let title = str_or (Option.bind (field block ''child_database'') title) ''Untitled''
         in [indentStr @ ''database: '' @ escapeValue title])
      else if type = ''link_to_page'' then
        (let pageId = str_or (Option.bind (field block ''link_to_page'') page_id)
                        (str_or (Option.bind (field block ''link_to_page'') database_id) [])
         in [indentStr @ ''link_to_page: '' @ pageId])
      else [indentStr @ ''['' @ type @ '']''])"
| "formatListItems items indentStr =
     (if length items = 0 then []
      else
        (let type = btype (hd items);
             hasChildren = list_ex (\<lambda>item. case children item of None \<Rightarrow> False
                                            | Some cs \<Rightarrow> length cs > 0) items
         in if \<not> hasChildren \<and> length items \<ge> 2 then
              (let prefix = (if type = ''bulleted_list_item'' then ''items''
                             else if type = ''numbered_list_item'' then ''list'' else ''todos'')
               in (indentStr @ prefix @ ''['' @ string_of_nat (length items) @ '']:'')
                  # map (\<lambda>item.
                      (let blockContent = field item type;
                           text = richTextToPlain (Option.bind blockContent rich_text)
                       in if type = ''to_do'' then
                            (let checked = (if truthy (Option.bind blockContent checked)
                                            then ''[x]'' else ''[ ]'')
                             in indentStr @ ''  '' @ checked @ '' '' @ escapeValue text)
                          else indentStr @ ''  '' @ escapeValue text)) items)
            else concat (map (\<lambda>item. map (\<lambda>l. indentStr @ l) (convertBlock item 0)) items)))"
  by pat_completeness auto

termination
  apply (relation "inv_image (less_than <*lex*> less_than)
      (\<lambda>x. case x of
          Inl (bs, _) \<Rightarrow> (size_list size bs, 2::nat)
        | Inr (Inl (b, _)) \<Rightarrow> (size b, 0)
        | Inr (Inr (items, _)) \<Rightarrow> (size_list size items, 1))")
  apply (rule wf_inv_image, rule wf_lex_prod, rule wf_less_than, rule wf_less_than)
  apply (simp_all add: collectListItems_def children_size size_drop_collect
      size_collect_cases column_size member_size_cases)
  done

declare convertBlock.simps [simp del]

declare formatListItems.simps [simp del]

section \<open>Engine limits: the block converter with RangeError\<close>

text \<open>
  The source has no \<^verbatim>\<open>throw\<close>, and every read of an optional field goes through
  \<^verbatim>\<open>?.\<close>, \<^verbatim>\<open>||\<close> or a test, so over the data model a call of the block
  converter can only fail in the engine: a call nested deeper than the call stack allows,
  and a spread call \<^verbatim>\<open>lines.push(...xs)\<close> with more arguments than the engine
  accepts, both raise \<^verbatim>\<open>RangeError\<close>. The functions of this section are
  convertBlocks, convertBlock and formatListItems once more, statement by statement,
  with these two failures as values. \<open>maxArgs\<close> is the largest number of arguments of one
  call and \<open>stack\<close> the number of nested activations of the three functions that are
  still available; the helpers that do not recurse (formatTable, richTextToPlain,
  escapeValue, collectListItems) are taken to fit. \<open>spread\<close> is the argument list of a
  spread call, \<open>call\<close> one activation, \<open>forEachE\<close> a \<^verbatim>\<open>for ... of\<close> loop whose body
  may fail. Where a case of the switch neither recurses nor spreads, and in the tabular
  branch of formatListItems, the result is the one of the function above.
\<close>

datatype error = RangeError

definition bindE :: "error + 'a \<Rightarrow> ('a \<Rightarrow> error + 'b) \<Rightarrow> error + 'b" where
  "bindE m f = (case m of Inl e \<Rightarrow> Inl e | Inr x \<Rightarrow> f x)"

definition spread :: "nat \<Rightarrow> string list \<Rightarrow> error + string list" where
  "spread maxArgs xs = (if maxArgs < length xs then Inl RangeError else Inr xs)"


fun forEachE :: "('a \<Rightarrow> error + string list) \<Rightarrow> 'a list \<Rightarrow> error + string list" where
  "forEachE f [] = Inr []"
| "forEachE f (x # xs) = bindE (f x) (\<lambda>a. bindE (forEachE f xs) (\<lambda>b. Inr (a @ b)))"

lemma forEachE_cong [fundef_cong]:
  "xs = ys \<Longrightarrow> (\<And>x. x \<in> set ys \<Longrightarrow> f x = g x) \<Longrightarrow> forEachE f xs = forEachE g ys"
  by (induction ys arbitrary: xs) auto

declare if_cong [fundef_cong del]


declare if_cong [fundef_cong]



fun nesting :: "block \<Rightarrow> nat" where
  "nesting (Block t f cs) =
     (case cs of None \<Rightarrow> 0 | Some xs \<Rightarrow> Suc (foldr max (map nesting xs) 0))"

definition nestingOf :: "block list \<Rightarrow> nat" where
  "nestingOf bs = foldr max (map nesting bs) 0"

text \<open>
  The result of a call that may fail agrees with a value when it is that value or a
  \<^verbatim>\<open>RangeError\<close>.
\<close>

definition agrees :: "error + 'a \<Rightarrow> 'a \<Rightarrow> bool" where
  "agrees m v = (m = Inl RangeError \<or> m = Inr v)"

section \<open>Property values (notion-api.js, extractPropertyValue)\<close>

text \<open>
  What extractPropertyValue returns: a JSON scalar or an array of such values. The
  converter never computes with a number, it only renders it with \<^verbatim>\<open>String\<close>; the
  type of numbers is a parameter \<open>'n\<close> and their rendering a function \<open>numstr\<close>.
\<close>

datatype 'n jsval =
  JUndefined | JNull | JBool bool | JNum 'n | JStr string | JArr "'n jsval list"

text \<open>
  \<^verbatim>\<open>String(v)\<close>. An array renders as its elements joined by commas, where
  \<^verbatim>\<open>null\<close> and \<^verbatim>\<open>undefined\<close> elements render as the empty string.
\<close>

fun js_String :: "('n \<Rightarrow> string) \<Rightarrow> 'n jsval \<Rightarrow> string" where
  "js_String numstr JUndefined = ''undefined''"
| "js_String numstr JNull = ''null''"
| "js_String numstr (JBool b) = (if b then ''true'' else ''false'')"
| "js_String numstr (JNum x) = numstr x"
| "js_String numstr (JStr s) = s"
| "js_String numstr (JArr vs) =
     join '','' (map (\<lambda>v. if v = JUndefined \<or> v = JNull then [] else js_String numstr v) vs)"

text \<open>
  A string field read without a default: \<^verbatim>\<open>undefined\<close> when it is missing.
\<close>

definition opt_str :: "string option \<Rightarrow> 'n jsval" where
  "opt_str a = (case a of None \<Rightarrow> JUndefined | Some s \<Rightarrow> JStr s)"

text \<open>
  Truthiness of a string field: missing and empty are falsy.
\<close>

definition str_truthy :: "string option \<Rightarrow> bool" where
  "str_truthy a = (case a of None \<Rightarrow> False | Some s \<Rightarrow> s \<noteq> [])"

text \<open>
  The objects inside a property: \<^verbatim>\<open>{name}\<close> of a select, status or multi-select
  option, a date range, a user, a file entry, a relation reference, a unique id and a
  formula result.
\<close>

datatype named = Named (named_name: "string option")

datatype date_value = DateValue (date_start: "string option") (date_end: "string option")

datatype user = User (user_name: "string option") (user_id: "string option")

datatype file_entry =
  FileEntry (entry_name: "string option") (entry_external: "link option")
    (entry_file: "link option")

datatype relation_ref = RelationRef (ref_id: "string option")

datatype 'n unique_id = UniqueId (prefix: "string option") (number: "'n jsval")

datatype 'n formula =
  Formula (formula_type: string) (formula_string: "'n jsval") (formula_number: "'n jsval")
    (formula_boolean: "'n jsval") (formula_date: "date_value option")

text \<open>
  A property: its \<^verbatim>\<open>type\<close> tag and the payload under the key of each type. A rollup
  of kind \<open>array\<close> holds property-like items again, so the rollup is kept outside the
  record of the other fields.
\<close>

record 'n property_fields =
  ptype :: string
  prop_title :: "rich_text_item list option"
  prop_rich_text :: "rich_text_item list option"
  prop_number :: "'n jsval"
  prop_select :: "named option"
  prop_multi_select :: "named list option"
  prop_status :: "named option"
  prop_date :: "date_value option"
  prop_people :: "user list option"
  prop_files :: "file_entry list option"
  prop_checkbox :: "'n jsval"
  prop_url :: "'n jsval"
  prop_email :: "'n jsval"
  prop_phone_number :: "'n jsval"
  prop_formula :: "'n formula option"
  prop_relation :: "relation_ref list option"
  prop_created_time :: "'n jsval"
  prop_created_by :: "user option"
  prop_last_edited_time :: "'n jsval"
  prop_last_edited_by :: "user option"
  prop_unique_id :: "'n unique_id option"

datatype 'n property =
  Property (pfields: "'n property_fields") (prop_rollup: "'n rollup option")
and 'n rollup =
  Rollup (rollup_type: string) (rollup_number: "'n jsval") (rollup_date: "date_value option")
    (rollup_array: "'n property list option")

definition extractFormulaValue :: "'n formula option \<Rightarrow> 'n jsval" where
  "extractFormulaValue formula =
     (case formula of
        None \<Rightarrow> JNull
      | Some f \<Rightarrow>
          if formula_type f = ''string'' then formula_string f
          else if formula_type f = ''number'' then formula_number f
          else if formula_type f = ''boolean'' then formula_boolean f
          else if formula_type f = ''date'' then opt_str (Option.bind (formula_date f) date_start)
          else JNull)"

text \<open>
  extractPropertyValue and extractRollupValue. The argument is an object, so the guard
  \<^verbatim>\<open>if (!property) return null\<close> does not fire; a missing rollup is \<open>None\<close>. The
  arrow of a date range is U+2192 in UTF-8.
\<close>

fun extractPropertyValue :: "('n \<Rightarrow> string) \<Rightarrow> 'n property \<Rightarrow> 'n jsval"
  and extractRollupValue :: "('n \<Rightarrow> string) \<Rightarrow> 'n rollup option \<Rightarrow> 'n jsval"
where
  "extractPropertyValue numstr (Property p r) =
     (let type = ptype p in
      if type = ''title'' then JStr (richTextToPlain (prop_title p))
      else if type = ''rich_text'' then JStr (richTextToPlain (prop_rich_text p))
      else if type = ''number'' then prop_number p
      else if type = ''select'' then
        (if str_truthy (Option.bind (prop_select p) named_name)
         then opt_str (Option.bind (prop_select p) named_name) else JNull)
      else if type = ''multi_select'' then
        (case prop_multi_select p of
           None \<Rightarrow> JArr []
         | Some xs \<Rightarrow> JArr (map (\<lambda>s. opt_str (named_name s)) xs))
      else if type = ''status'' then
        (if str_truthy (Option.bind (prop_status p) named_name)
         then opt_str (Option.bind (prop_status p) named_name) else JNull)
      else if type = ''date'' then
        (case prop_date p of
           None \<Rightarrow> JNull
         | Some d \<Rightarrow>
             if str_truthy (date_end d)
             then JStr (js_String numstr (opt_str (date_start d))
                        @ [CHR '' '', CHR 0xE2, CHR 0x86, CHR 0x92, CHR '' '']
                        @ js_String numstr (opt_str (date_end d)))
             else opt_str (date_start d))
      else if type = ''people'' then
        (case prop_people p of
           None \<Rightarrow> JArr []
         | Some xs \<Rightarrow>
             JArr (map (\<lambda>u. if str_truthy (user_name u) then opt_str (user_name u)
                              else opt_str (user_id u)) xs))
      else if type = ''files'' then
        (case prop_files p of
           None \<Rightarrow> JArr []
         | Some xs \<Rightarrow>
             JArr (map (\<lambda>f. if str_truthy (entry_name f) then opt_str (entry_name f)
                              else if str_truthy (Option.bind (entry_external f) link_url)
                              then opt_str (Option.bind (entry_external f) link_url)
                              else opt_str (Option.bind (entry_file f) link_url)) xs))
      else if type = ''checkbox'' then prop_checkbox p
      else if type = ''url'' then prop_url p
      else if type = ''email'' then prop_email p
      else if type = ''phone_number'' then prop_phone_number p
      else if type = ''formula'' then extractFormulaValue (prop_formula p)
      else if type = ''relation'' then
        (case prop_relation p of
           None \<Rightarrow> JArr []
         | Some xs \<Rightarrow> JArr (map (\<lambda>r. opt_str (ref_id r)) xs))
      else if type = ''rollup'' then extractRollupValue numstr r
      else if type = ''created_time'' then prop_created_time p
      else if type = ''created_by'' then
        (if str_truthy (Option.bind (prop_created_by p) user_name)
         then opt_str (Option.bind (prop_created_by p) user_name)
         else opt_str (Option.bind (prop_created_by p) user_id))
      else if type = ''last_edited_time'' then prop_last_edited_time p
      else if type = ''last_edited_by'' then
        (if str_truthy (Option.bind (prop_last_edited_by p) user_name)
         then opt_str (Option.bind (prop_last_edited_by p) user_name)
         else opt_str (Option.bind (prop_last_edited_by p) user_id))
      else if type = ''unique_id'' then
        (case prop_unique_id p of
           None \<Rightarrow> JNull
         | Some u \<Rightarrow>
             (let prefix = str_or (prefix u) []
              in if prefix \<noteq> [] then JStr (prefix @ ''-'' @ js_String numstr (number u))
                 else number u))
      else JNull)"
| "extractRollupValue numstr None = JNull"
| "extractRollupValue numstr (Some (Rollup type num date array)) =
     (if type = ''number'' then num
      else if type = ''date'' then opt_str (Option.bind date date_start)
      else if type = ''array'' then
        (case array of
           None \<Rightarrow> JUndefined
         | Some items \<Rightarrow> JArr (map (\<lambda>item. extractPropertyValue numstr item) items))
      else JNull)"

section \<open>Properties and the page (toon-converter.js)\<close>

definition formatPropertyValue :: "('n \<Rightarrow> string) \<Rightarrow> 'n jsval \<Rightarrow> string" where
  "formatPropertyValue numstr v =
     (case v of
        JArr vs \<Rightarrow>
          if length vs = 0 then ''[]''
          else ''['' @ join '', '' (map (\<lambda>x. escapeValue (js_String numstr x)) vs) @ '']''
      | JBool b \<Rightarrow> if b then ''true'' else ''false''
      | JNum x \<Rightarrow> js_String numstr (JNum x)
      | _ \<Rightarrow> escapeValue (js_String numstr v))"

text \<open>
  convertProperties walks \<^verbatim>\<open>Object.entries(properties)\<close>; the property map is the
  list of its entries in that order.
\<close>

fun convertEntries :: "('n \<Rightarrow> string) \<Rightarrow> (string \<times> 'n property) list \<Rightarrow> string list" where
  "convertEntries numstr [] = []"
| "convertEntries numstr ((key, prop) # rest) =
     (if ptype (pfields prop) = ''title'' then convertEntries numstr rest
      else
        (let v = extractPropertyValue numstr prop
         in if v = JNull \<or> v = JUndefined \<or> v = JStr [] then convertEntries numstr rest
            else (key @ '': '' @ formatPropertyValue numstr v) # convertEntries numstr rest))"

definition convertProperties ::
    "('n \<Rightarrow> string) \<Rightarrow> (string \<times> 'n property) list option \<Rightarrow> string list" where
  "convertProperties numstr properties =
     (case properties of None \<Rightarrow> [] | Some entries \<Rightarrow> convertEntries numstr entries)"

record 'n page =
  ident :: string
  created_time :: string
  last_edited_time :: string
  properties :: "(string \<times> 'n property) list option"

fun titleOfEntries :: "(string \<times> 'n property) list \<Rightarrow> string option" where
  "titleOfEntries [] = None"
| "titleOfEntries ((key, prop) # rest) =
     (if ptype (pfields prop) = ''title''
      then Some (richTextToPlain (prop_title (pfields prop)))
      else titleOfEntries rest)"

definition extractTitle :: "'n page \<Rightarrow> string option" where
  "extractTitle page =
     (case properties page of None \<Rightarrow> None | Some entries \<Rightarrow> titleOfEntries entries)"

text \<open>
  convertToToon builds its result in the local array \<^verbatim>\<open>lines\<close>. The model keeps
  that array in a state together with the two arguments, so that every statement of the
  function is a step on the state: \<open>push\<close> is \<^verbatim>\<open>lines.push(line)\<close> and \<open>pushEach\<close>
  is a \<^verbatim>\<open>for ... of\<close> loop of pushes.
\<close>

record 'n conv_state =
  st_page :: "'n page"
  st_blocks :: "block list"
  st_lines :: "string list"

definition push :: "string \<Rightarrow> 'n conv_state \<Rightarrow> 'n conv_state" where
  "push line s = s\<lparr>st_lines := st_lines s @ [line]\<rparr>"

definition pushEach :: "(string \<Rightarrow> string) \<Rightarrow> string list \<Rightarrow> 'n conv_state \<Rightarrow> 'n conv_state" where
  "pushEach f xs s = foldl (\<lambda>s' x. push (f x) s') s xs"

definition convertToToonSteps :: "('n \<Rightarrow> string) \<Rightarrow> 'n conv_state \<Rightarrow> 'n conv_state" where
  "convertToToonSteps numstr s0 =
     (let s1 = push ''meta:'' s0;
          s2 = push (''  id: '' @ ident (st_page s1)) s1;
          s3 = push (''  created: '' @ created_time (st_page s2)) s2;
          s4 = push (''  updated: '' @ last_edited_time (st_page s3)) s3;
          s5 = (case extractTitle (st_page s4) of
                  None \<Rightarrow> s4
                | Some t \<Rightarrow> if t \<noteq> [] then push (''  title: '' @ escapeValue t) s4 else s4);
          properties = convertProperties numstr (properties (st_page s5));
          s6 = (if length properties > 0
                then pushEach (\<lambda>prop. ''  '' @ prop) properties (push ''properties:'' s5)
                else s5);
          content = convertBlocks (st_blocks s6) 0;
          s7 = (if length content > 0
                then pushEach (\<lambda>line. ''  '' @ line) content (push ''content:'' s6)
                else s6)
      in s7)"

text \<open>
  One call of convertToToon starts from an empty \<^verbatim>\<open>lines\<close> array; the result is
  \<^verbatim>\<open>lines.join('\n')\<close>.
\<close>

definition convertToToonRun :: "('n \<Rightarrow> string) \<Rightarrow> 'n page \<Rightarrow> block list \<Rightarrow> 'n conv_state" where
  "convertToToonRun numstr page blocks =
     convertToToonSteps numstr \<lparr>st_page = page, st_blocks = blocks, st_lines = []\<rparr>"

definition convertToToonLines :: "('n \<Rightarrow> string) \<Rightarrow> 'n page \<Rightarrow> block list \<Rightarrow> string list" where
  "convertToToonLines numstr page blocks = st_lines (convertToToonRun numstr page blocks)"

definition convertToToon :: "('n \<Rightarrow> string) \<Rightarrow> 'n page \<Rightarrow> block list \<Rightarrow> string" where
  "convertToToon numstr page blocks = join [newline] (convertToToonLines numstr page blocks)"

section \<open>The kinds of the switch\<close>

text \<open>The case labels of the \<^verbatim>\<open>switch\<close> in convertBlock, in source order.\<close>

definition switchKinds :: "string list" where
  "switchKinds =
     [''paragraph'', ''heading_1'', ''heading_2'', ''heading_3'', ''bulleted_list_item'',
      ''numbered_list_item'', ''to_do'', ''toggle'', ''code'', ''quote'', ''callout'',
      ''divider'', ''image'', ''video'', ''file'', ''pdf'', ''bookmark'', ''link_preview'',
      ''embed'', ''equation'', ''table_of_contents'', ''breadcrumb'', ''column_list'',
      ''synced_block'', ''child_page'', ''child_database'', ''link_to_page'']"

section \<open>Example inputs\<close>

text \<open>Blocks, properties and a page used to evaluate the converter on concrete inputs.\<close>

definition noPayload :: payload where
  "noPayload = \<lparr>rich_text = None, checked = None, language = None, icon = None,
     file_link = None, external_link = None, caption = None, name = None, url = None,
     expression = None, title = None, page_id = None, database_id = None,
     has_column_header = None, cells = None\<rparr>"

definition richText :: "string \<Rightarrow> rich_text_item list" where
  "richText s = [\<lparr>plain_text = Some s\<rparr>]"

definition textBlock :: "string \<Rightarrow> string \<Rightarrow> block list option \<Rightarrow> block" where
  "textBlock kind s cs =
     Block kind (\<lambda>k. if k = kind then Some (noPayload\<lparr>rich_text := Some (richText s)\<rparr>) else None) cs"

definition todoBlock :: "bool \<Rightarrow> string \<Rightarrow> block list option \<Rightarrow> block" where
  "todoBlock done s cs =
     Block ''to_do''
       (\<lambda>k. if k = ''to_do''
            then Some (noPayload\<lparr>rich_text := Some (richText s), checked := Some done\<rparr>)
            else None) cs"


definition tableRow :: "string list \<Rightarrow> block" where
  "tableRow cs =
     Block ''table_row''
       (\<lambda>k. if k = ''table_row'' then Some (noPayload\<lparr>cells := Some (map richText cs)\<rparr>) else None)
       None"

definition fragmentRow :: "string list list \<Rightarrow> block" where
  "fragmentRow cs =
     Block ''table_row''
       (\<lambda>k. if k = ''table_row''
            then Some (noPayload\<lparr>cells := Some (map (map (\<lambda>s. \<lparr>plain_text = Some s\<rparr>)) cs)\<rparr>)
            else None)
       None"

definition tableBlock :: "bool \<Rightarrow> block list \<Rightarrow> block" where
  "tableBlock hdr rows =
     Block ''table''
       (\<lambda>k. if k = ''table'' then Some (noPayload\<lparr>has_column_header := Some hdr\<rparr>) else None)
       (Some rows)"



definition noFields :: "string \<Rightarrow> 'n property_fields" where
  "noFields t =
     \<lparr>ptype = t, prop_title = None, prop_rich_text = None, prop_number = JUndefined,
      prop_select = None, prop_multi_select = None, prop_status = None, prop_date = None,
      prop_people = None, prop_files = None, prop_checkbox = JUndefined, prop_url = JUndefined,
      prop_email = JUndefined, prop_phone_number = JUndefined, prop_formula = None,
      prop_relation = None, prop_created_time = JUndefined, prop_created_by = None,
      prop_last_edited_time = JUndefined, prop_last_edited_by = None, prop_unique_id = None\<rparr>"

definition multiSelect :: "string list \<Rightarrow> nat property" where
  "multiSelect xs =
     Property ((noFields ''multi_select'')
       \<lparr>prop_multi_select := Some (map (\<lambda>s. Named (Some s)) xs)\<rparr>) None"

definition selectProp :: "string \<Rightarrow> nat property" where
  "selectProp s = Property ((noFields ''select'')\<lparr>prop_select := Some (Named (Some s))\<rparr>) None"

definition titleProp :: "string \<Rightarrow> nat property" where
  "titleProp s =
     Property ((noFields ''title'')\<lparr>prop_title := Some [\<lparr>plain_text = Some s\<rparr>]\<rparr>) None"

definition examplePage :: "(string \<times> nat property) list \<Rightarrow> nat page" where
  "examplePage entries =
     \<lparr>ident = ''p1'', created_time = ''2024-01-01'', last_edited_time = ''2024-01-02'',
      properties = Some entries\<rparr>"

section \<open>Basic facts\<close>

lemma str_split_nonempty: "str_split sep s \<noteq> []"
  by (induction s) auto

lemma escapeValue_plain: "newline \<notin> set s \<Longrightarrow> escapeValue s = s"
  by (simp add: escapeValue_def str_includes_def)

lemma string_of_nat_digit: "n < 10 \<Longrightarrow> string_of_nat n = [digit n]"
  by (simp add: string_of_nat.simps)

lemma indentOf_simps: "indentOf 0 = []" "indentOf (Suc n) = ''  '' @ indentOf n"
  by (simp_all add: indentOf_def repeat_def)

lemma indentOf_add: "indentOf (k + n) = indentOf k @ indentOf n"
  by (simp add: indentOf_def repeat_def replicate_add)

lemma append_append_fun: "(@) (a @ b) = (\<lambda>x. a @ b @ x)"
  by (simp add: fun_eq_iff)

lemma richTextToPlain_richText: "richTextToPlain (Some (richText s)) = s"
  by (simp add: richTextToPlain_def richText_def str_or_def)

lemma textBlock_sel:
  "btype (textBlock kind s cs) = kind"
  "children (textBlock kind s cs) = cs"
  "richTextToPlain (Option.bind (field (textBlock kind s cs) kind) rich_text) = s"
  "Option.bind (field (textBlock kind s cs) kind) checked = None"
  by (simp_all add: textBlock_def noPayload_def richTextToPlain_richText)

lemma todoBlock_sel:
  "btype (todoBlock done s cs) = ''to_do''"
  "children (todoBlock done s cs) = cs"
  "richTextToPlain (Option.bind (field (todoBlock done s cs) ''to_do'') rich_text) = s"
  "Option.bind (field (todoBlock done s cs) ''to_do'') checked = Some done"
  by (simp_all add: todoBlock_def noPayload_def richTextToPlain_richText)

lemma rowCells_tableRow: "rowCells (tableRow cs) = cs"
  by (induction cs)
    (simp_all add: rowCells_def tableRow_def noPayload_def richTextToPlain_def richText_def
      str_or_def)

lemma escapeValue_cells:
  "escapeValue ''Col1'' = ''Col1''" "escapeValue ''Col2'' = ''Col2''"
  "escapeValue ''a'' = ''a''" "escapeValue ''b'' = ''b''"
  "escapeValue ''c'' = ''c''" "escapeValue ''d'' = ''d''"
  by (simp_all add: escapeValue_plain newline_def)


section \<open>Properties of value escaping\<close>

lemma hd_str_split: "hd (str_split sep s) = takeWhile (\<lambda>c. c \<noteq> sep) s"
  by (induction s) auto

lemma takeWhile_before_first:
  "sep \<notin> set pre \<Longrightarrow> takeWhile (\<lambda>c. c \<noteq> sep) (pre @ sep # rest) = pre"
  by (induction pre) auto

lemma escapeValue_no_newline: "\<not> str_includes (escapeValue s) newline"
proof -
  have "newline \<notin> set (takeWhile (\<lambda>c. c \<noteq> newline) s)"
    by (auto dest: set_takeWhileD)
  moreover have "newline \<notin> set ''...''"
    by (simp add: newline_def)
  ultimately show ?thesis
    by (simp add: escapeValue_def str_includes_def hd_str_split)
qed

text \<open>
  Claim C2. A string with no newline character is returned by escapeValue unchanged,
  commas and colons included. A string with a newline is cut before its first newline
  and the three characters \<open>...\<close> are appended: whenever \<open>s\<close> is \<open>pre\<close>, a newline and
  \<open>rest\<close>, with no newline in \<open>pre\<close>, the result is \<open>pre\<close> followed by \<open>...\<close>.
\<close>

theorem escapeValue_rule:
  "(newline \<notin> set s \<longrightarrow> escapeValue s = s) \<and>
   (\<forall>pre rest. s = pre @ newline # rest \<and> newline \<notin> set pre \<longrightarrow>
      escapeValue s = pre @ ''...'')"
proof (intro conjI allI impI)
  assume "newline \<notin> set s"
  then show "escapeValue s = s"
    by (simp add: escapeValue_def str_includes_def)
next
  fix pre rest
  assume h: "s = pre @ newline # rest \<and> newline \<notin> set pre"
  then have "str_includes s newline" and "s \<noteq> []"
    by (auto simp: str_includes_def)
  moreover from h have "hd (str_split newline s) = pre"
    by (simp add: hd_str_split takeWhile_before_first)
  ultimately show "escapeValue s = pre @ ''...''"
    by (simp add: escapeValue_def)
qed

theorem escapeValue_rule_witness:
  "escapeValue ''a,b: c'' = ''a,b: c'' \<and>
   escapeValue (''Hello'' @ newline # ''World'') = ''Hello...''"
proof
  have h: "newline \<notin> set ''a,b: c''"
    by (simp add: newline_def)
  show "escapeValue ''a,b: c'' = ''a,b: c''"
    by (rule escapeValue_rule [THEN conjunct1, rule_format, OF h])
next
  have h: "''Hello'' @ newline # ''World'' = ''Hello'' @ newline # ''World'' \<and>
      newline \<notin> set ''Hello''"
    by (simp add: newline_def)
  show "escapeValue (''Hello'' @ newline # ''World'') = ''Hello...''"
    using escapeValue_rule [THEN conjunct2, rule_format, OF h] by simp
qed

text \<open>
  Claim C9. escapeValue is idempotent: escaping an escaped string changes nothing,
  because the result of escapeValue never contains a newline.
\<close>

theorem escapeValue_idempotent:
  "escapeValue (escapeValue s) = escapeValue s \<and> \<not> str_includes (escapeValue s) newline"
proof
  show nl: "\<not> str_includes (escapeValue s) newline"
    by (rule escapeValue_no_newline)
  then show "escapeValue (escapeValue s) = escapeValue s"
    by (simp add: escapeValue_def [of "escapeValue s"])
qed

section \<open>Tables\<close>

lemma formatTable_empty:
  "children b = None \<or> children b = Some [] \<Longrightarrow> formatTable b ind = [ind @ ''table[0]:'']"
  by (auto simp: formatTable_def)

lemma formatTable_header:
  "children b = Some (r # rs) \<Longrightarrow> truthy (Option.bind (field b ''table'') has_column_header) \<Longrightarrow>
   rowCells r \<noteq> [] \<Longrightarrow>
   formatTable b ind =
     (ind @ ''table['' @ string_of_nat (length rs) @ '']{''
        @ join '','' (map escapeValue (rowCells r)) @ ''}:'')
     # map (\<lambda>row. ind @ ''  '' @ join '','' (map escapeValue (rowCells row))) rs"
  by (simp add: formatTable_def Let_def)

lemma formatTable_header_empty:
  "children b = Some (r # rs) \<Longrightarrow> truthy (Option.bind (field b ''table'') has_column_header) \<Longrightarrow>
   rowCells r = [] \<Longrightarrow>
   formatTable b ind =
     (ind @ ''table['' @ string_of_nat (length rs) @ '']:'')
     # map (\<lambda>row. ind @ ''  '' @ join '','' (map escapeValue (rowCells row))) rs"
  by (simp add: formatTable_def Let_def)

lemma formatTable_plain:
  "children b = Some rows \<Longrightarrow> rows \<noteq> [] \<Longrightarrow>
   \<not> truthy (Option.bind (field b ''table'') has_column_header) \<Longrightarrow>
   formatTable b ind =
     (ind @ ''table['' @ string_of_nat (length rows) @ '']:'')
     # map (\<lambda>row. ind @ ''  '' @ join '','' (map escapeValue (rowCells row))) rows"
  by (simp add: formatTable_def Let_def)

lemma convertBlocks_table:
  "btype b = ''table'' \<Longrightarrow> convertBlocks [b] n = formatTable b (indentOf n)"
  by (simp add: isListItem_def)

lemma formatTable_shift:
  "formatTable b (p @ s) = map ((@) p) (formatTable b s)"
  by (simp add: formatTable_def Let_def split: option.splits)

lemma join_empty_sep: "join [] xs = concat xs"
  by (induction xs rule: induct_list012) simp_all

lemma richTextToPlain_concat:
  "richTextToPlain (Some cell) =
     concat (map (\<lambda>rt. case plain_text rt of None \<Rightarrow> [] | Some s \<Rightarrow> s) cell)"
proof -
  have "str_or a [] = (case a of None \<Rightarrow> [] | Some s \<Rightarrow> s)" for a
    by (simp add: str_or_def split: option.splits)
  then show ?thesis
    by (simp add: richTextToPlain_def join_empty_sep)
qed

lemma escapeValue_cut:
  "escapeValue c =
     (if newline \<in> set c then takeWhile (\<lambda>x. x \<noteq> newline) c @ ''...'' else c)"
  by (auto simp: escapeValue_def str_includes_def hd_str_split)

text \<open>
  Claim C3. A table block with no rows emits the single line \<open>table[0]:\<close>. With the
  column-header flag set, the cells of the first row are the header list: when that list
  is not empty the header line is \<open>table[n]{h1,h2,...}:\<close> with the escaped headers joined
  by commas, otherwise it is \<open>table[n]:\<close>; in both cases the first row is not a data row
  and \<open>n\<close> counts the remaining rows. Without the flag every row is a data row and the
  header line is \<open>table[n]:\<close>. Each data row is one line, one indent deeper, of its
  cells rendered to plain text, escaped and joined by commas. convertBlocks sends a
  block of kind \<open>table\<close> to formatTable. Rendered to plain text, a cell is the
  concatenation of the \<open>plain_text\<close> of its fragments, a fragment without one counting
  as empty, and a row without cells has no cell; escaped, a header or cell with a line
  break is cut before its first line break and followed by \<open>...\<close>, and any other is
  unchanged.
\<close>

theorem formatTable_spec:
  "(children b = None \<or> children b = Some [] \<longrightarrow>
      formatTable b ind = [ind @ ''table[0]:'']) \<and>
   (\<forall>r rs. children b = Some (r # rs) \<and>
      truthy (Option.bind (field b ''table'') has_column_header) \<and> rowCells r \<noteq> [] \<longrightarrow>
      formatTable b ind =
        (ind @ ''table['' @ string_of_nat (length rs) @ '']{''
           @ join '','' (map escapeValue (rowCells r)) @ ''}:'')
        # map (\<lambda>row. ind @ ''  '' @ join '','' (map escapeValue (rowCells row))) rs) \<and>
   (\<forall>r rs. children b = Some (r # rs) \<and>
      truthy (Option.bind (field b ''table'') has_column_header) \<and> rowCells r = [] \<longrightarrow>
      formatTable b ind =
        (ind @ ''table['' @ string_of_nat (length rs) @ '']:'')
        # map (\<lambda>row. ind @ ''  '' @ join '','' (map escapeValue (rowCells row))) rs) \<and>
   (\<forall>rows. children b = Some rows \<and> rows \<noteq> [] \<and>
      \<not> truthy (Option.bind (field b ''table'') has_column_header) \<longrightarrow>
      formatTable b ind =
        (ind @ ''table['' @ string_of_nat (length rows) @ '']:'')
        # map (\<lambda>row. ind @ ''  '' @ join '','' (map escapeValue (rowCells row))) rows) \<and>
   (btype b = ''table'' \<longrightarrow> convertBlocks [b] n = formatTable b (indentOf n)) \<and>
   (\<forall>row. rowCells row =
      (case Option.bind (field row ''table_row'') cells of
         None \<Rightarrow> []
       | Some cs \<Rightarrow>
           map (\<lambda>cell. concat (map (\<lambda>rt. case plain_text rt of None \<Rightarrow> [] | Some s \<Rightarrow> s) cell))
             cs)) \<and>
   (\<forall>c. escapeValue c =
      (if newline \<in> set c then takeWhile (\<lambda>x. x \<noteq> newline) c @ ''...'' else c))"
proof (intro conjI allI impI)
  assume "children b = None \<or> children b = Some []"
  then show "formatTable b ind = [ind @ ''table[0]:'']"
    by (rule formatTable_empty)
next
  fix r rs
  assume "children b = Some (r # rs) \<and>
    truthy (Option.bind (field b ''table'') has_column_header) \<and> rowCells r \<noteq> []"
  then show "formatTable b ind =
      (ind @ ''table['' @ string_of_nat (length rs) @ '']{''
         @ join '','' (map escapeValue (rowCells r)) @ ''}:'')
      # map (\<lambda>row. ind @ ''  '' @ join '','' (map escapeValue (rowCells row))) rs"
    using formatTable_header [of b r rs ind] by simp
next
  fix r rs
  assume "children b = Some (r # rs) \<and>
    truthy (Option.bind (field b ''table'') has_column_header) \<and> rowCells r = []"
  then show "formatTable b ind =
      (ind @ ''table['' @ string_of_nat (length rs) @ '']:'')
      # map (\<lambda>row. ind @ ''  '' @ join '','' (map escapeValue (rowCells row))) rs"
    using formatTable_header_empty [of b r rs ind] by simp
next
  fix rows
  assume "children b = Some rows \<and> rows \<noteq> [] \<and>
    \<not> truthy (Option.bind (field b ''table'') has_column_header)"
  then show "formatTable b ind =
      (ind @ ''table['' @ string_of_nat (length rows) @ '']:'')
      # map (\<lambda>row. ind @ ''  '' @ join '','' (map escapeValue (rowCells row))) rows"
    using formatTable_plain [of b rows ind] by simp
next
  assume "btype b = ''table''"
  then show "convertBlocks [b] n = formatTable b (indentOf n)"
    by (rule convertBlocks_table)
next
  fix row
  show "rowCells row =
      (case Option.bind (field row ''table_row'') cells of
         None \<Rightarrow> []
       | Some cs \<Rightarrow>
           map (\<lambda>cell. concat (map (\<lambda>rt. case plain_text rt of None \<Rightarrow> [] | Some s \<Rightarrow> s) cell))
             cs)"
    by (simp add: rowCells_def richTextToPlain_concat split: option.splits)
next
  fix c
  show "escapeValue c =
      (if newline \<in> set c then takeWhile (\<lambda>x. x \<noteq> newline) c @ ''...'' else c)"
    by (rule escapeValue_cut)
qed

theorem formatTable_spec_witness:
  "formatTable (tableBlock True []) [] = [''table[0]:''] \<and>
   formatTable
     (tableBlock True [tableRow [''Col1'', ''Col2''], tableRow [''a'', ''b''], tableRow [''c'', ''d'']])
     [] = [''table[2]{Col1,Col2}:'', ''  a,b'', ''  c,d''] \<and>
   formatTable (tableBlock True [tableRow [], tableRow [''a'', ''b'']]) [] =
     [''table[1]:'', ''  a,b''] \<and>
   formatTable (tableBlock False [tableRow [''a'', ''b''], tableRow [''c'', ''d'']]) [] =
     [''table[2]:'', ''  a,b'', ''  c,d''] \<and>
   convertBlocks [tableBlock False [tableRow [''a'', ''b'']]] 0 = [''table[1]:'', ''  a,b''] \<and>
   formatTable
     (tableBlock True
        [fragmentRow [[''H1\<newline>more''], [''Col'', ''2'']],
         fragmentRow [[''a'', ''\<newline>b''], [''c'']]])
     [] = [''table[1]{H1...,Col2}:'', ''  a...,c'']"
proof (intro conjI)
  have "children (tableBlock True []) = None \<or> children (tableBlock True []) = Some []"
    by (simp add: tableBlock_def)
  from formatTable_spec [where ind = "[]", THEN conjunct1, rule_format, OF this]
  show "formatTable (tableBlock True []) [] = [''table[0]:'']"
    by simp
next
  let ?r = "tableRow [''Col1'', ''Col2'']"
  let ?rs = "[tableRow [''a'', ''b''], tableRow [''c'', ''d'']]"
  have "children (tableBlock True (?r # ?rs)) = Some (?r # ?rs) \<and>
      truthy (Option.bind (field (tableBlock True (?r # ?rs)) ''table'') has_column_header) \<and>
      rowCells ?r \<noteq> []"
    by (simp add: tableBlock_def truthy_def noPayload_def rowCells_tableRow)
  from formatTable_spec [where ind = "[]", THEN conjunct2, THEN conjunct1, rule_format, OF this]
  show "formatTable (tableBlock True (?r # ?rs)) [] =
      [''table[2]{Col1,Col2}:'', ''  a,b'', ''  c,d'']"
    by (simp add: rowCells_tableRow escapeValue_cells
        string_of_nat_digit digit_def)
next
  let ?r = "tableRow []"
  let ?rs = "[tableRow [''a'', ''b'']]"
  have "children (tableBlock True (?r # ?rs)) = Some (?r # ?rs) \<and>
      truthy (Option.bind (field (tableBlock True (?r # ?rs)) ''table'') has_column_header) \<and>
      rowCells ?r = []"
    by (simp add: tableBlock_def truthy_def noPayload_def rowCells_tableRow)
  from formatTable_spec [where ind = "[]", THEN conjunct2, THEN conjunct2, THEN conjunct1, rule_format, OF this]
  show "formatTable (tableBlock True (?r # ?rs)) [] = [''table[1]:'', ''  a,b'']"
    by (simp add: rowCells_tableRow escapeValue_cells
        string_of_nat_digit digit_def)
next
  let ?rows = "[tableRow [''a'', ''b''], tableRow [''c'', ''d'']]"
  have "children (tableBlock False ?rows) = Some ?rows \<and> ?rows \<noteq> [] \<and>
      \<not> truthy (Option.bind (field (tableBlock False ?rows) ''table'') has_column_header)"
    by (simp add: tableBlock_def truthy_def noPayload_def)
  from formatTable_spec [where ind = "[]", THEN conjunct2, THEN conjunct2, THEN conjunct2, THEN conjunct1,
      rule_format, OF this]
  show "formatTable (tableBlock False ?rows) [] = [''table[2]:'', ''  a,b'', ''  c,d'']"
    by (simp add: rowCells_tableRow escapeValue_cells
        string_of_nat_digit digit_def)
next
  let ?b = "tableBlock False [tableRow [''a'', ''b'']]"
  have t: "btype ?b = ''table''"
    by (simp add: tableBlock_def)
  have "children ?b = Some [tableRow [''a'', ''b'']] \<and> [tableRow [''a'', ''b'']] \<noteq> [] \<and>
      \<not> truthy (Option.bind (field ?b ''table'') has_column_header)"
    by (simp add: tableBlock_def truthy_def noPayload_def)
  from formatTable_spec [where ind = "[]", THEN conjunct2, THEN conjunct2, THEN conjunct2, THEN conjunct1,
      rule_format, OF this]
    formatTable_spec [where n = 0, THEN conjunct2, THEN conjunct2, THEN conjunct2, THEN conjunct2,
      THEN conjunct1, rule_format, OF t]
  show "convertBlocks [?b] 0 = [''table[1]:'', ''  a,b'']"
    by (simp add: rowCells_tableRow escapeValue_cells
        string_of_nat_digit digit_def indentOf_def repeat_def)
next
  let ?r = "fragmentRow [[''H1\<newline>more''], [''Col'', ''2'']]"
  let ?rs = "[fragmentRow [[''a'', ''\<newline>b''], [''c'']]]"
  note cells = formatTable_spec [THEN conjunct2, THEN conjunct2, THEN conjunct2, THEN conjunct2,
      THEN conjunct2, THEN conjunct1, rule_format]
  note escaped = formatTable_spec [THEN conjunct2, THEN conjunct2, THEN conjunct2, THEN conjunct2,
      THEN conjunct2, THEN conjunct2, rule_format]
  have r: "rowCells ?r = [''H1\<newline>more'', ''Col2'']"
    using cells [of ?r] by (simp add: fragmentRow_def noPayload_def)
  have rs: "rowCells (fragmentRow [[''a'', ''\<newline>b''], [''c'']]) = [''a\<newline>b'', ''c'']"
    using cells [of "fragmentRow [[''a'', ''\<newline>b''], [''c'']]"]
    by (simp add: fragmentRow_def noPayload_def)
  have e: "escapeValue ''H1\<newline>more'' = ''H1...''" "escapeValue ''Col2'' = ''Col2''"
    "escapeValue ''a\<newline>b'' = ''a...''" "escapeValue ''c'' = ''c''"
    by (simp_all add: escaped newline_def)
  have "children (tableBlock True (?r # ?rs)) = Some (?r # ?rs) \<and>
      truthy (Option.bind (field (tableBlock True (?r # ?rs)) ''table'') has_column_header) \<and>
      rowCells ?r \<noteq> []"
    by (simp add: tableBlock_def truthy_def noPayload_def r)
  from formatTable_spec [where ind = "[]", THEN conjunct2, THEN conjunct1, rule_format, OF this]
  show "formatTable (tableBlock True (?r # ?rs)) [] = [''table[1]{H1...,Col2}:'', ''  a...,c'']"
    by (simp add: r rs e string_of_nat_digit digit_def)
qed

section \<open>The dispatch on the kind of a block\<close>

lemma kind_cases:
  obtains
    (k_paragraph) "t = ''paragraph''" | (k_heading_1) "t = ''heading_1''"
  | (k_heading_2) "t = ''heading_2''" | (k_heading_3) "t = ''heading_3''"
  | (k_bulleted) "t = ''bulleted_list_item''" | (k_numbered) "t = ''numbered_list_item''"
  | (k_to_do) "t = ''to_do''" | (k_toggle) "t = ''toggle''" | (k_code) "t = ''code''"
  | (k_quote) "t = ''quote''" | (k_callout) "t = ''callout''" | (k_divider) "t = ''divider''"
  | (k_image) "t = ''image''" | (k_video) "t = ''video''" | (k_file) "t = ''file''"
  | (k_pdf) "t = ''pdf''" | (k_bookmark) "t = ''bookmark''" | (k_link_preview) "t = ''link_preview''"
  | (k_embed) "t = ''embed''" | (k_equation) "t = ''equation''"
  | (k_toc) "t = ''table_of_contents''" | (k_breadcrumb) "t = ''breadcrumb''"
  | (k_column_list) "t = ''column_list''" | (k_synced_block) "t = ''synced_block''"
  | (k_child_page) "t = ''child_page''" | (k_child_database) "t = ''child_database''"
  | (k_link_to_page) "t = ''link_to_page''" | (k_other) "t \<notin> set switchKinds"
  unfolding switchKinds_def set_simps insert_iff empty_iff by metis

lemma convertBlock_paragraph:
  "btype b = ''paragraph'' \<Longrightarrow>
   convertBlock b n =
     (if richTextToPlain (Option.bind (field b ''paragraph'') rich_text) \<noteq> []
      then [indentOf n @ ''p: ''
            @ escapeValue (richTextToPlain (Option.bind (field b ''paragraph'') rich_text))]
      else [])"
  by (simp add: convertBlock.simps [of b] Let_def)

lemma convertBlock_textBearing:
  assumes "btype b \<in> set [''heading_1'', ''heading_2'', ''heading_3'', ''toggle'', ''quote'']"
  shows "convertBlock b n =
     (if richTextToPlain (Option.bind (field b (btype b)) rich_text) \<noteq> []
      then [indentOf n
            @ (if btype b = ''heading_1'' then ''h1''
               else if btype b = ''heading_2'' then ''h2''
               else if btype b = ''heading_3'' then ''h3''
               else btype b)
            @ '': '' @ escapeValue (richTextToPlain (Option.bind (field b (btype b)) rich_text))]
      else [])
     @ (case children b of None \<Rightarrow> [] | Some cs \<Rightarrow> convertBlocks cs (n + 1))"
proof -
  consider "btype b = ''heading_1''" | "btype b = ''heading_2''" | "btype b = ''heading_3''"
    | "btype b = ''toggle''" | "btype b = ''quote''"
    using assms by auto
  then show ?thesis
    by cases (simp_all add: convertBlock.simps [of b] Let_def)
qed

lemma convertBlock_listItem:
  assumes "btype b \<in> set [''bulleted_list_item'', ''numbered_list_item'', ''to_do'']"
  shows "convertBlock b n =
     (if richTextToPlain (Option.bind (field b (btype b)) rich_text) \<noteq> []
      then [indentOf n
            @ (if btype b = ''bulleted_list_item'' then ''-''
               else if btype b = ''numbered_list_item'' then ''#''
               else if truthy (Option.bind (field b (btype b)) checked) then ''[x]'' else ''[ ]'')
            @ '' '' @ escapeValue (richTextToPlain (Option.bind (field b (btype b)) rich_text))]
      else [])
     @ (case children b of None \<Rightarrow> [] | Some cs \<Rightarrow> convertBlocks cs (n + 1))"
proof -
  consider "btype b = ''bulleted_list_item''" | "btype b = ''numbered_list_item''"
    | "btype b = ''to_do''"
    using assms by auto
  then show ?thesis
  proof cases
    case 1
    then show ?thesis by (simp add: convertBlock.simps [of b] Let_def)
  next
    case 2
    then show ?thesis by (simp add: convertBlock.simps [of b] Let_def)
  next
    case 3
    then show ?thesis by (simp add: convertBlock.simps [of b] Let_def)
  qed
qed





text \<open>
  Claim C4, evaluated on the code. A paragraph with text \<open>Parent\<close> and one child
  paragraph \<open>Child\<close> emits only the line \<open>p: Parent\<close>: the paragraph case of convertBlock
  does not descend into the children. The same children under a \<open>heading_1\<close> are emitted
  one indent deeper.
\<close>

theorem paragraph_children_dropped:
  "convertBlocks
     [textBlock ''paragraph'' ''Parent'' (Some [textBlock ''paragraph'' ''Child'' None])] 0 =
     [''p: Parent''] \<and>
   convertBlocks
     [textBlock ''heading_1'' ''Parent'' (Some [textBlock ''paragraph'' ''Child'' None])] 0 =
     [''h1: Parent'', ''  p: Child'']"
proof -
  have e: "escapeValue ''Parent'' = ''Parent''" "escapeValue ''Child'' = ''Child''"
    by (simp_all add: escapeValue_plain newline_def)
  show ?thesis
    by (simp add: isListItem_def textBlock_sel convertBlock_paragraph convertBlock_textBearing
        indentOf_simps e)
qed

section \<open>Indentation\<close>

text \<open>
  Converting at a deeper level only puts more indentation in front of every line. This
  is what makes the per-item path of formatListItems, which converts at level 0 and then
  prefixes the indentation, agree with the regular dispatch at the current level.
\<close>

lemma shift:
  "convertBlocks bs (k + n) = map ((@) (indentOf k)) (convertBlocks bs n)"
  "convertBlock b (k + n) = map ((@) (indentOf k)) (convertBlock b n)"
  "formatListItems items (indentOf k @ s) = map ((@) (indentOf k)) (formatListItems items s)"
proof (induction bs n and b n and items s rule: convertBlocks_convertBlock_formatListItems.induct)
  case (1 indent)
  then show ?case by simp
next
  case (2 block rest indent)
  then show ?case
    by (simp add: Let_def indentOf_add formatTable_shift)
next
  case (3 block indent)
  show ?case
  proof (cases rule: kind_cases [of "btype block"])
    case k_column_list
    have cols: "map (\<lambda>col. case children col of None \<Rightarrow> []
                    | Some cs \<Rightarrow> convertBlocks cs (k + indent + 1)) cols =
          map (\<lambda>col. map ((@) (indentOf k))
                 (case children col of None \<Rightarrow> []
                  | Some cs \<Rightarrow> convertBlocks cs (indent + 1))) cols"
      if "children block = Some cols" for cols
      by (rule map_cong) (use 3 k_column_list that in \<open>auto split: option.splits\<close>)
    show ?thesis
      by (simp add: convertBlock.simps [of block] k_column_list Let_def indentOf_add
          map_concat comp_def cols split: option.splits)
  qed (use 3 in \<open>simp_all add: convertBlock.simps [of block] Let_def indentOf_add
        switchKinds_def split: option.splits\<close>)
next
  case (4 items indentStr)
  show ?case
    by (simp add: formatListItems.simps [of items] Let_def map_concat comp_def
        append_append_fun)
qed

section \<open>List grouping\<close>







lemma formatListItems_tabular:
  assumes "2 \<le> length items"
    and "\<forall>b\<in>set items. children b = None \<or> children b = Some []"
  shows "formatListItems items ind =
     (ind @ (if btype (hd items) = ''bulleted_list_item'' then ''items''
             else if btype (hd items) = ''numbered_list_item'' then ''list'' else ''todos'')
        @ ''['' @ string_of_nat (length items) @ '']:'')
     # map (\<lambda>b. ind @ ''  ''
              @ (if btype (hd items) = ''to_do''
                 then (if truthy (Option.bind (field b (btype (hd items))) checked)
                       then ''[x]'' else ''[ ]'') @ '' ''
                 else [])
              @ escapeValue (richTextToPlain (Option.bind (field b (btype (hd items))) rich_text)))
         items"
proof -
  have "\<not> list_ex (\<lambda>item. case children item of None \<Rightarrow> False | Some cs \<Rightarrow> length cs > 0) items"
    using assms(2) by (auto simp: list_ex_iff split: option.splits)
  moreover have "length items \<noteq> 0"
    using assms(1) by auto
  ultimately show ?thesis
    using assms(1) by (simp add: formatListItems.simps [of items] Let_def)
qed

lemma formatListItems_perItem:
  assumes "items \<noteq> []"
    and "\<not> (2 \<le> length items \<and> (\<forall>b\<in>set items. children b = None \<or> children b = Some []))"
  shows "formatListItems items (indentOf n) = concat (map (\<lambda>b. convertBlock b n) items)"
proof -
  let ?hasChildren =
    "list_ex (\<lambda>item. case children item of None \<Rightarrow> False | Some cs \<Rightarrow> length cs > 0) items"
  have eq: "map ((@) (indentOf n)) (convertBlock b 0) = convertBlock b n" for b
    using shift(2) [of b n 0] by simp
  have "?hasChildren \<or> \<not> 2 \<le> length items"
    using assms(2) by (auto simp: list_ex_iff split: option.splits)
  then have "\<not> (\<not> ?hasChildren \<and> 2 \<le> length items)"
    by simp
  then have "formatListItems items (indentOf n) =
      concat (map (\<lambda>item. map (\<lambda>l. indentOf n @ l) (convertBlock item 0)) items)"
    using assms(1) by (subst formatListItems.simps) (simp only: Let_def if_False length_0_conv)
  then show ?thesis
    by (simp add: eq)
qed



text \<open>
  Claim C10. In the tabular form every item has its line, also an item whose rendered
  text is empty: that line is the indentation alone, or the indentation and the marker
  \<open>[x]\<close> or \<open>[ ]\<close> with the space after it for a \<open>to_do\<close>. In the per-item path a list
  item whose rendered text is empty has no line of its own: the dispatch yields only the
  lines of its children, and a run of that single item yields the same.
\<close>

theorem empty_list_item_lines:
  "(2 \<le> length items \<and> (\<forall>b\<in>set items. children b = None \<or> children b = Some []) \<longrightarrow>
      length (formatListItems items ind) = Suc (length items) \<and>
      (\<forall>i<length items.
         richTextToPlain (Option.bind (field (items ! i) (btype (hd items))) rich_text) = [] \<longrightarrow>
         formatListItems items ind ! Suc i =
           ind @ ''  ''
           @ (if btype (hd items) = ''to_do''
              then (if truthy (Option.bind (field (items ! i) ''to_do'') checked)
                    then ''[x]'' else ''[ ]'') @ '' ''
              else []))) \<and>
   (btype b \<in> set [''bulleted_list_item'', ''numbered_list_item'', ''to_do''] \<and>
    richTextToPlain (Option.bind (field b (btype b)) rich_text) = [] \<longrightarrow>
      convertBlock b n = (case children b of None \<Rightarrow> [] | Some cs \<Rightarrow> convertBlocks cs (n + 1)) \<and>
      formatListItems [b] (indentOf n) =
        (case children b of None \<Rightarrow> [] | Some cs \<Rightarrow> convertBlocks cs (n + 1)))"
proof (intro conjI impI)
  assume h: "2 \<le> length items \<and> (\<forall>b\<in>set items. children b = None \<or> children b = Some [])"
  then have tab: "formatListItems items ind =
     (ind @ (if btype (hd items) = ''bulleted_list_item'' then ''items''
             else if btype (hd items) = ''numbered_list_item'' then ''list'' else ''todos'')
        @ ''['' @ string_of_nat (length items) @ '']:'')
     # map (\<lambda>b. ind @ ''  ''
              @ (if btype (hd items) = ''to_do''
                 then (if truthy (Option.bind (field b (btype (hd items))) checked)
                       then ''[x]'' else ''[ ]'') @ '' ''
                 else [])
              @ escapeValue (richTextToPlain (Option.bind (field b (btype (hd items))) rich_text)))
         items"
    using formatListItems_tabular [of items ind] by simp
  show "length (formatListItems items ind) = Suc (length items)"
    by (simp add: tab)
  show "\<forall>i<length items.
         richTextToPlain (Option.bind (field (items ! i) (btype (hd items))) rich_text) = [] \<longrightarrow>
         formatListItems items ind ! Suc i =
           ind @ ''  ''
           @ (if btype (hd items) = ''to_do''
              then (if truthy (Option.bind (field (items ! i) ''to_do'') checked)
                    then ''[x]'' else ''[ ]'') @ '' ''
              else [])"
    by (simp add: tab escapeValue_def)
next
  assume h: "btype b \<in> set [''bulleted_list_item'', ''numbered_list_item'', ''to_do''] \<and>
    richTextToPlain (Option.bind (field b (btype b)) rich_text) = []"
  then show c: "convertBlock b n =
      (case children b of None \<Rightarrow> [] | Some cs \<Rightarrow> convertBlocks cs (n + 1))"
    using convertBlock_listItem [of b n] by simp
  have "\<not> (2 \<le> length [b] \<and> (\<forall>x\<in>set [b]. children x = None \<or> children x = Some []))"
    by simp
  then have "formatListItems [b] (indentOf n) = concat (map (\<lambda>b. convertBlock b n) [b])"
    by (rule formatListItems_perItem [rotated]) simp
  with c show "formatListItems [b] (indentOf n) =
      (case children b of None \<Rightarrow> [] | Some cs \<Rightarrow> convertBlocks cs (n + 1))"
    by simp
qed

theorem empty_list_item_lines_witness:
  "length (formatListItems
     [textBlock ''bulleted_list_item'' [] None, textBlock ''bulleted_list_item'' ''x'' None] []) = 3 \<and>
   formatListItems
     [textBlock ''bulleted_list_item'' [] None, textBlock ''bulleted_list_item'' ''x'' None] [] ! 1 =
     ''  '' \<and>
   formatListItems [todoBlock True [] None, todoBlock False [] None] [] ! 1 = ''  [x] '' \<and>
   formatListItems [todoBlock True [] None, todoBlock False [] None] [] ! 2 = ''  [ ] '' \<and>
   convertBlock (textBlock ''bulleted_list_item'' [] None) 0 = [] \<and>
   formatListItems [textBlock ''bulleted_list_item'' [] None] [] = []"
proof -
  let ?bs = "[textBlock ''bulleted_list_item'' [] None, textBlock ''bulleted_list_item'' ''x'' None]"
  let ?ts = "[todoBlock True [] None, todoBlock False [] None]"
  let ?b = "textBlock ''bulleted_list_item'' [] None"
  have hb: "2 \<le> length ?bs \<and> (\<forall>b\<in>set ?bs. children b = None \<or> children b = Some [])"
    by (simp add: textBlock_sel)
  have ht: "2 \<le> length ?ts \<and> (\<forall>b\<in>set ?ts. children b = None \<or> children b = Some [])"
    by (simp add: todoBlock_sel)
  have h1: "btype ?b \<in> set [''bulleted_list_item'', ''numbered_list_item'', ''to_do''] \<and>
      richTextToPlain (Option.bind (field ?b (btype ?b)) rich_text) = []"
    by (simp add: textBlock_sel)
  note bs = empty_list_item_lines [where items = ?bs and ind = "[]", THEN conjunct1, rule_format, OF hb]
  note ts = empty_list_item_lines [where items = ?ts and ind = "[]", THEN conjunct1, rule_format, OF ht]
  note b = empty_list_item_lines [where b = ?b and n = 0, THEN conjunct2, rule_format, OF h1]
  have "length (formatListItems ?bs []) = 3"
    using bs [THEN conjunct1] by simp
  moreover have "formatListItems ?bs [] ! 1 = ''  ''"
    using bs [THEN conjunct2, rule_format, of 0] by (simp add: textBlock_sel)
  moreover have "formatListItems ?ts [] ! 1 = ''  [x] ''"
    using ts [THEN conjunct2, rule_format, of 0] by (simp add: todoBlock_sel truthy_def)
  moreover have "formatListItems ?ts [] ! 2 = ''  [ ] ''"
    using ts [THEN conjunct2, rule_format, of 1] by (simp add: todoBlock_sel truthy_def numeral_2_eq_2)
  moreover have "convertBlock ?b 0 = []"
    using b [THEN conjunct1] by (simp add: textBlock_sel)
  moreover have "formatListItems [?b] [] = []"
    using b [THEN conjunct2] by (simp add: textBlock_sel indentOf_simps)
  ultimately show ?thesis
    by simp
qed

section \<open>Defaults and the fallback line\<close>


section \<open>Engine limits\<close>

text \<open>
  The nesting of a block counts the levels of children below it. One level costs at most
  three nested activations (convertBlocks, formatListItems, convertBlock), so a call
  stack of three activations per level, and two more, is enough; and no spread call has
  more arguments than the whole result has lines.
\<close>

lemma bindE_simps [simp]: "bindE (Inr x) f = f x" "bindE (Inl e) f = Inl e"
  by (simp_all add: bindE_def)







lemma length_shift: "length (convertBlock b n) = length (convertBlock b 0)"
  using shift(2) [of b n 0] by simp

lemma nestingOf_simps [simp]:
  "nestingOf [] = 0" "nestingOf (b # bs) = max (nesting b) (nestingOf bs)"
  by (simp_all add: nestingOf_def)







text \<open>
  Whatever the limits, a result that is returned is the result of the functions without
  limits: the only failure is \<^verbatim>\<open>RangeError\<close>.
\<close>

lemma agrees_Inr [simp]: "agrees (Inr x) v = (x = v)"
  by (simp add: agrees_def)

lemma agrees_Inl [simp]: "agrees (Inl e) v"
  by (cases e) (simp add: agrees_def)

lemma agrees_bind: "agrees m v \<Longrightarrow> agrees (f v) w \<Longrightarrow> agrees (bindE m f) w"
  by (auto simp: agrees_def)


lemma agrees_spread: "agrees (spread A xs) xs"
  by (simp add: spread_def)






















section \<open>The properties section\<close>

lemma push_sel [simp]:
  "st_page (push l s) = st_page s" "st_blocks (push l s) = st_blocks s"
  "st_lines (push l s) = st_lines s @ [l]"
  by (simp_all add: push_def)

lemma pushEach_sel [simp]:
  "st_page (pushEach f xs s) = st_page s" "st_blocks (pushEach f xs s) = st_blocks s"
  "st_lines (pushEach f xs s) = st_lines s @ map f xs"
  by (induction xs arbitrary: s) (simp_all add: pushEach_def)

lemma convertToToonLines_eq:
  "convertToToonLines numstr page blocks =
     [''meta:'',
      ''  id: '' @ ident page,
      ''  created: '' @ created_time page,
      ''  updated: '' @ last_edited_time page]
     @ (case extractTitle page of
          None \<Rightarrow> []
        | Some t \<Rightarrow> if t \<noteq> [] then [''  title: '' @ escapeValue t] else [])
     @ (if convertProperties numstr (properties page) \<noteq> []
        then ''properties:'' # map (\<lambda>prop. ''  '' @ prop) (convertProperties numstr (properties page))
        else [])
     @ (if convertBlocks blocks 0 \<noteq> []
        then ''content:'' # map (\<lambda>line. ''  '' @ line) (convertBlocks blocks 0) else [])"
  by (simp add: convertToToonLines_def convertToToonRun_def convertToToonSteps_def Let_def
      split: option.splits)

lemma convertEntries_nonempty:
  "convertEntries numstr entries \<noteq> [] \<longleftrightarrow>
   (\<exists>(key, prop)\<in>set entries. ptype (pfields prop) \<noteq> ''title'' \<and>
      extractPropertyValue numstr prop \<noteq> JNull \<and>
      extractPropertyValue numstr prop \<noteq> JUndefined \<and>
      extractPropertyValue numstr prop \<noteq> JStr [])"
  by (induction numstr entries rule: convertEntries.induct) (auto simp: Let_def)

lemma convertEntries_member:
  assumes "(key, prop) \<in> set entries" and "ptype (pfields prop) \<noteq> ''title''"
    and "extractPropertyValue numstr prop \<noteq> JNull"
    and "extractPropertyValue numstr prop \<noteq> JUndefined"
    and "extractPropertyValue numstr prop \<noteq> JStr []"
  shows "key @ '': '' @ formatPropertyValue numstr (extractPropertyValue numstr prop)
     \<in> set (convertEntries numstr entries)"
  using assms by (induction numstr entries rule: convertEntries.induct) (auto simp: Let_def)

lemma properties_line_iff:
  "''properties:'' \<in> set (convertToToonLines numstr page blocks) \<longleftrightarrow>
   convertProperties numstr (properties page) \<noteq> []"
  by (auto simp: convertToToonLines_eq split: option.splits)

lemma property_line_member:
  "l \<in> set (convertProperties numstr (properties page)) \<Longrightarrow>
   ''  '' @ l \<in> set (convertToToonLines numstr page blocks)"
  by (auto simp: convertToToonLines_eq)

lemma extract_multiSelect_empty: "extractPropertyValue numstr (multiSelect []) = JArr []"
  by (simp add: multiSelect_def noFields_def)

lemma extract_titleProp: "extractPropertyValue numstr (titleProp s) = JStr s"
  by (simp add: titleProp_def noFields_def richTextToPlain_def str_or_def)

text \<open>
  Claim C5, as amended. The line \<open>properties:\<close> is emitted if and only if some property
  that is not the title has an extracted value other than \<^verbatim>\<open>null\<close>,
  \<^verbatim>\<open>undefined\<close> and the empty string. An empty sequence is such a value: a property
  whose extracted value is the empty sequence makes the section appear and is listed
  as \<open>name: []\<close>.
\<close>

theorem properties_section_iff:
  "(''properties:'' \<in> set (convertToToonLines numstr page blocks) \<longleftrightarrow>
    (\<exists>entries. properties page = Some entries \<and>
       (\<exists>(key, prop)\<in>set entries. ptype (pfields prop) \<noteq> ''title'' \<and>
          extractPropertyValue numstr prop \<noteq> JNull \<and>
          extractPropertyValue numstr prop \<noteq> JUndefined \<and>
          extractPropertyValue numstr prop \<noteq> JStr []))) \<and>
   (\<forall>entries key prop. properties page = Some entries \<and> (key, prop) \<in> set entries \<and>
      ptype (pfields prop) \<noteq> ''title'' \<and> extractPropertyValue numstr prop = JArr [] \<longrightarrow>
      ''properties:'' \<in> set (convertToToonLines numstr page blocks) \<and>
      ''  '' @ key @ '': []'' \<in> set (convertToToonLines numstr page blocks))"
proof (intro conjI allI impI)
  show "''properties:'' \<in> set (convertToToonLines numstr page blocks) \<longleftrightarrow>
    (\<exists>entries. properties page = Some entries \<and>
       (\<exists>(key, prop)\<in>set entries. ptype (pfields prop) \<noteq> ''title'' \<and>
          extractPropertyValue numstr prop \<noteq> JNull \<and>
          extractPropertyValue numstr prop \<noteq> JUndefined \<and>
          extractPropertyValue numstr prop \<noteq> JStr []))"
    unfolding properties_line_iff convertProperties_def
    by (cases "properties page") (simp_all add: convertEntries_nonempty)
next
  fix es k p
  assume h: "properties page = Some es \<and> (k, p) \<in> set es \<and>
      ptype (pfields p) \<noteq> ''title'' \<and> extractPropertyValue numstr p = JArr []"
  then have m: "k @ '': '' @ formatPropertyValue numstr (extractPropertyValue numstr p)
      \<in> set (convertEntries numstr es)"
    by (intro convertEntries_member) simp_all
  with h have l: "k @ '': []'' \<in> set (convertProperties numstr (properties page))"
    by (simp add: convertProperties_def formatPropertyValue_def)
  then show "''  '' @ k @ '': []'' \<in> set (convertToToonLines numstr page blocks)"
    by (rule property_line_member)
  from l have "convertProperties numstr (properties page) \<noteq> []"
    by auto
  then show "''properties:'' \<in> set (convertToToonLines numstr page blocks)"
    by (simp add: properties_line_iff)
qed

theorem properties_section_iff_witness:
  "''properties:'' \<in>
     set (convertToToonLines string_of_nat (examplePage [(''Status'', selectProp ''Done'')]) []) \<and>
   ''properties:'' \<notin>
     set (convertToToonLines string_of_nat (examplePage [(''Name'', titleProp ''Doc'')]) []) \<and>
   ''  Tags: []'' \<in>
     set (convertToToonLines string_of_nat (examplePage [(''Tags'', multiSelect [])]) [])"
proof (intro conjI)
  have "extractPropertyValue string_of_nat (selectProp ''Done'') = JStr ''Done''"
    by (simp add: selectProp_def noFields_def str_truthy_def opt_str_def)
  then show "''properties:'' \<in>
     set (convertToToonLines string_of_nat (examplePage [(''Status'', selectProp ''Done'')]) [])"
    using properties_section_iff [of string_of_nat "examplePage [(''Status'', selectProp ''Done'')]" "[]"]
    by (simp add: examplePage_def selectProp_def noFields_def)
  show "''properties:'' \<notin>
     set (convertToToonLines string_of_nat (examplePage [(''Name'', titleProp ''Doc'')]) [])"
    using properties_section_iff [of string_of_nat "examplePage [(''Name'', titleProp ''Doc'')]" "[]"]
    by (simp add: examplePage_def titleProp_def noFields_def)
  have "properties (examplePage [(''Tags'', multiSelect [])]) = Some [(''Tags'', multiSelect [])] \<and>
      (''Tags'', multiSelect []) \<in> set [(''Tags'', multiSelect [])] \<and>
      ptype (pfields (multiSelect [])) \<noteq> ''title'' \<and>
      extractPropertyValue string_of_nat (multiSelect []) = JArr []"
    by (simp add: examplePage_def extract_multiSelect_empty) (simp add: multiSelect_def noFields_def)
  from properties_section_iff [THEN conjunct2, rule_format, OF this, THEN conjunct2]
  show "''  Tags: []'' \<in>
     set (convertToToonLines string_of_nat (examplePage [(''Tags'', multiSelect [])]) [])"
    by simp
qed

text \<open>
  Claim C5 as stated fails: on a page whose only property besides the title is an
  empty multi-select, the extracted value is the empty sequence and the output has the
  \<open>properties:\<close> section, with the line \<open>Tags: []\<close>.
\<close>

theorem empty_multi_select_listed:
  "extractPropertyValue string_of_nat (multiSelect []) = JArr [] \<and>
   convertToToonLines string_of_nat
     (examplePage [(''Name'', titleProp ''Doc''), (''Tags'', multiSelect [])]) [] =
     [''meta:'', ''  id: p1'', ''  created: 2024-01-01'', ''  updated: 2024-01-02'',
      ''  title: Doc'', ''properties:'', ''  Tags: []'']"
proof -
  have "escapeValue ''Doc'' = ''Doc''"
    by (simp add: escapeValue_def str_includes_def newline_def)
  then show ?thesis
    by (simp add: convertToToonLines_eq examplePage_def extractTitle_def convertProperties_def
        extract_multiSelect_empty extract_titleProp formatPropertyValue_def Let_def
        multiSelect_def titleProp_def noFields_def richTextToPlain_def str_or_def)
qed

end
